theory Spec2Isabelle
  imports Main "HOL-Library.AList"
begin

section \<open>Positions and tokens\<close>

text \<open>
  Modelled from the spec: the class \<open>Position\<close> (module \<open>Position.py\<close>) is used by the
  lexer, the tokens and the sanitizer, but its source is not part of the repository
  snapshot. The spec gives its fields (byte index, line, column, file name, full source
  text) and its one operation: advancing over a newline increments the line and resets
  the column to 0, advancing over anything else increments the column; the byte index
  always grows by one. The field names are the ones the callers read
  (\<open>pos.idx\<close>, \<open>pos.ln\<close>, \<open>pos.col\<close>, \<open>pos.fn\<close>, \<open>pos.ftxt\<close>).
  \<open>advance\<close> takes the character being left, or \<open>None\<close> when the caller passes none.
\<close>

record position =
  idx :: int
  ln :: int
  col :: int
  fn :: string
  ftxt :: string

definition advance_pos :: "position \<Rightarrow> char option \<Rightarrow> position" where
  "advance_pos p c =
     (if c = Some (CHR 0x0A)
      then p\<lparr>idx := idx p + 1, ln := ln p + 1, col := 0\<rparr>
      else p\<lparr>idx := idx p + 1, col := col p + 1\<rparr>)"

text \<open>\<open>Token.py\<close>: the enumeration \<open>TokenType\<close>, in the order of the source.\<close>

datatype TokenType =
    IDENT | INT_T | FLOAT | BOOL | STRING
  | PLUS | MINUS | ASTERISK | SLASH | POW | MODULUS
  | EQ | PLUS_EQ | MINUS_EQ | MUL_EQ | DIV_EQ | POW_EQ | MOD_EQ
  | LPAREN | RPAREN | COLON | COMMA | SEMICOLON
  | AND_KW | OR_KW | NOT_KW | VAR | DEF | RETURN | IF | ELIF | ELSE
  | TRUE | FALSE | WHILE | CONTINUE | BREAK | IMPORT | END
  | TYPE_KW
  | ARROW | EOF | ILLEGAL
  | GT | LT | GT_EQ | LT_EQ | NOT_EQ | EQ_EQ

text \<open>
  A token's \<open>literal\<close> is a Python object: a string for most tokens, the result of
  \<open>int(...)\<close> for \<open>INT\<close>, of \<open>float(...)\<close> for \<open>FLOAT\<close>, and \<open>None\<close> for \<open>EOF\<close>.
  The float is kept as the text handed to \<open>float\<close>.
\<close>

datatype literal = LNone | LStr string | LInt int | LFloat string

record token =
  type :: TokenType
  literal :: literal
  pos_start :: position
  pos_end :: position

text \<open>
  \<open>Token.__init__\<close>: the start position is copied; the end position is the start advanced
  by one (no character given) unless an explicit end is passed.
\<close>

definition Token :: "TokenType \<Rightarrow> literal \<Rightarrow> position \<Rightarrow> position option \<Rightarrow> token" where
  "Token ty lit ps pe =
     \<lparr>type = ty, literal = lit, pos_start = ps,
      pos_end = (case pe of None \<Rightarrow> advance_pos ps None | Some e \<Rightarrow> e)\<rparr>"

section \<open>Automatic semicolon insertion (Sanitizer.py)\<close>

definition closer_types :: "TokenType set" where
  "closer_types = {RPAREN, IDENT, STRING, INT_T, FLOAT, FALSE, TRUE}"

definition starter_types :: "TokenType set" where
  "starter_types = {LPAREN, IDENT, STRING, INT_T, FLOAT, FALSE, TRUE, DEF, RETURN,
                    IF, ELIF, ELSE, END, VAR, WHILE, BREAK, CONTINUE}"

definition return_follow_types :: "TokenType set" where
  "return_follow_types = {BREAK, CONTINUE, DEF, ELIF, ELSE, END, IF, RETURN, VAR, WHILE}"

definition final_types :: "TokenType set" where
  "final_types = {RPAREN, IDENT, STRING, INT_T, FLOAT, BREAK, CONTINUE, FALSE, RETURN, TRUE}"

text \<open>
  The body of the first loop for one pair \<open>(prev, cur)\<close>: the byte indices appended to
  \<open>insert_positions\<close> in this iteration.
\<close>

definition pair_positions :: "token option \<Rightarrow> token \<Rightarrow> int list" where
  "pair_positions prev cur =
     (case prev of
        None \<Rightarrow> []
      | Some p \<Rightarrow>
          if type cur \<noteq> EOF \<and> ln (pos_end p) \<noteq> ln (pos_start cur) then
            (if type p \<in> closer_types then
               (if type cur \<in> starter_types then [idx (pos_end p)] else [])
             else if type p \<in> {BREAK, CONTINUE} then [idx (pos_end p)]
             else if type p = RETURN then
               (if type cur \<in> return_follow_types then [idx (pos_end p)] else [])
             else [])
          else if type cur = EOF then
            (if type p \<in> final_types then [idx (pos_end p)] else [])
          else [])"

fun insert_positions :: "token option \<Rightarrow> token list \<Rightarrow> int list" where
  "insert_positions prev [] = []"
| "insert_positions prev (cur # rest) =
     pair_positions prev cur @ insert_positions (Some cur) rest"

definition semicolon_token :: "token \<Rightarrow> token" where
  "semicolon_token t =
     Token SEMICOLON (LStr '';'') (pos_end t) (Some (advance_pos (pos_end t) None))"

fun reconstruct :: "int set \<Rightarrow> token list \<Rightarrow> token list" where
  "reconstruct S [] = []"
| "reconstruct S (t # ts) =
     (if idx (pos_end t) \<in> S then t # semicolon_token t # reconstruct S ts
      else t # reconstruct S ts)"

definition sanitize :: "token list \<Rightarrow> token list" where
  "sanitize tokens = reconstruct (set (insert_positions None tokens)) tokens"

text \<open>
  The token that precedes the next original token in the output of \<open>reconstruct\<close>:
  the previous token itself, or the semicolon inserted after it.
\<close>

definition prev_out :: "int set \<Rightarrow> token option \<Rightarrow> token option" where
  "prev_out S prev =
     (case prev of None \<Rightarrow> None
      | Some p \<Rightarrow> if idx (pos_end p) \<in> S then Some (semicolon_token p) else Some p)"

section \<open>String literals (Compiler.convert_string)\<close>

text \<open>
  Python's \<open>str.replace(old, new)\<close> for a non-empty \<open>old\<close>: one scan from the left,
  replacing each non-overlapping occurrence. (For an empty \<open>old\<close> Python inserts \<open>new\<close>
  around every character; \<open>convert_string\<close> never passes one, and the model then leaves
  the string as it is.)
\<close>

function str_replace :: "string \<Rightarrow> string \<Rightarrow> string \<Rightarrow> string" where
  "str_replace old new [] = []"
| "str_replace old new (c # cs) =
     (if old \<noteq> [] \<and> take (length old) (c # cs) = old
      then new @ str_replace old new (drop (length old) (c # cs))
      else c # str_replace old new cs)"
  by pat_completeness auto
termination
  by (relation "measure (\<lambda>(old, new, s). length s)") auto

text \<open>The backslash character.\<close>

definition BSL :: char where
  "BSL = CHR 0x5C"

text \<open>
  The ten \<open>string.replace\<close> calls of \<open>convert_string\<close>, in the order of the source:
  \<open>\n \t \r \\ \" \' \0 \b \f \v\<close>.
\<close>

definition decode_escapes :: "string \<Rightarrow> string" where
  "decode_escapes s0 =
     (let s1 = str_replace [BSL, CHR ''n''] [CHR 0x0A] s0;
          s2 = str_replace [BSL, CHR ''t''] [CHR 0x09] s1;
          s3 = str_replace [BSL, CHR ''r''] [CHR 0x0D] s2;
          s4 = str_replace [BSL, BSL] [BSL] s3;
          s5 = str_replace [BSL, CHR 0x22] [CHR 0x22] s4;
          s6 = str_replace [BSL, CHR 0x27] [CHR 0x27] s5;
          s7 = str_replace [BSL, CHR ''0''] [CHR 0x00] s6;
          s8 = str_replace [BSL, CHR ''b''] [CHR 0x08] s7;
          s9 = str_replace [BSL, CHR ''f''] [CHR 0x0C] s8
      in str_replace [BSL, CHR ''v''] [CHR 0x0B] s9)"

definition endswith :: "string \<Rightarrow> string \<Rightarrow> bool" where
  "endswith s suf = (length suf \<le> length s \<and> drop (length s - length suf) s = suf)"

text \<open>
  The bytes \<open>convert_string\<close> stages for the literal (\<open>fmt\<close> in the source): the decoded
  text, with a NUL appended unless it already ends with one.
\<close>

definition string_bytes :: "string \<Rightarrow> string" where
  "string_bytes s =
     (let d = decode_escapes s in if \<not> endswith d [CHR 0x00] then d @ [CHR 0x00] else d)"

section \<open>The syntax tree (AST.py)\<close>

text \<open>
  The leaves of the tree carry the Python object taken from the token that produced them
  (\<open>token.literal\<close>), so they are modelled with the type \<open>literal\<close>; the same holds for
  operators, type names and file paths.
\<close>

datatype expr =
    IntegerLiteral literal
  | FloatLiteral literal
  | IdentifierLiteral literal
  | BooleanLiteral bool
  | StringLiteral literal
  | InfixExpression expr literal expr
  | CallExpression expr "expr list"
  | PrefixExpression literal expr

datatype FunctionParameter = FunctionParameter (param_name: literal) (param_value_type: literal)

datatype stmt =
    ExpressionStatement expr
  | VarStatement expr "expr option" literal
  | FunctionStatement "FunctionParameter list" "stmt list" expr literal
  | ReturnStatement expr
  | AssignStatement expr literal expr
  | IfStatement expr "stmt list" "stmt list"
  | WhileStatement expr "stmt list"
  | BreakStatement
  | ContinueStatement
  | ImportStatement literal

text \<open>The attribute \<open>.value\<close> of a literal node; other nodes have none.\<close>

fun node_value :: "expr \<Rightarrow> literal option" where
  "node_value (IntegerLiteral v) = Some v"
| "node_value (FloatLiteral v) = Some v"
| "node_value (IdentifierLiteral v) = Some v"
| "node_value (BooleanLiteral b) = Some (LInt (if b then 1 else 0))"
| "node_value (StringLiteral v) = Some v"
| "node_value _ = None"

section \<open>Python exceptions\<close>

datatype exn =
    TypeError string
  | NameError string
  | ValueError string
  | IndexError string
  | KeyError string
  | AttributeError string
  | NotImplementedError string
  | RuntimeError string
  | Exception string

section \<open>The IR objects of the code generator\<close>

text \<open>
  The compiler builds its output through the library \<open>llvmlite.ir\<close>. The types, values and
  instructions it creates are modelled as data; an instruction object is itself the value
  it computes, and carries a number that stands for its identity.
\<close>

datatype irtype =
    IntType nat
  | DoubleType
  | PointerType irtype
  | VoidType
  | ArrayType irtype nat
  | FunctionType irtype "irtype list" bool

datatype irvalue =
    Constant irtype literal
  | Argument literal nat irtype
  | Function literal irtype "irtype list" bool
  | GlobalVariable string irtype
  | AllocaInstr nat irtype
  | LoadInstr nat irvalue
  | CastInstr nat string irvalue irtype
  | BinInstr nat string irvalue irvalue
  | CompareInstr nat string literal irvalue irvalue
  | CallInstr nat irvalue "irvalue list"

text \<open>What a basic block holds: value-producing instructions, stores and returns.\<close>

datatype irinstr = Emit irvalue | Store irvalue irvalue | Ret irvalue

fun is_IntType :: "irtype \<Rightarrow> bool" where
  "is_IntType (IntType _) = True"
| "is_IntType _ = False"

fun is_DoubleType :: "irtype \<Rightarrow> bool" where
  "is_DoubleType DoubleType = True"
| "is_DoubleType _ = False"

fun is_PointerType :: "irtype \<Rightarrow> bool" where
  "is_PointerType (PointerType _) = True"
| "is_PointerType _ = False"

text \<open>\<open>isinstance(t, C)\<close> for a type handle that may be \<open>None\<close>.\<close>

definition isinstance :: "irtype option \<Rightarrow> (irtype \<Rightarrow> bool) \<Rightarrow> bool" where
  "isinstance t C = (case t of None \<Rightarrow> False | Some ty \<Rightarrow> C ty)"

text \<open>The attribute \<open>.type\<close> of a value.\<close>

fun vtype :: "irvalue \<Rightarrow> irtype" where
  "vtype (Constant t _) = t"
| "vtype (Argument _ _ t) = t"
| "vtype (Function _ rt ats va) = PointerType (FunctionType rt ats va)"
| "vtype (GlobalVariable _ t) = PointerType t"
| "vtype (AllocaInstr _ t) = PointerType t"
| "vtype (LoadInstr _ p) = (case vtype p of PointerType t \<Rightarrow> t | _ \<Rightarrow> VoidType)"
| "vtype (CastInstr _ _ _ t) = t"
| "vtype (BinInstr _ _ l _) = vtype l"
| "vtype (CompareInstr _ _ _ _ _) = IntType 1"
| "vtype (CallInstr _ f _) = (case f of Function _ rt _ _ \<Rightarrow> rt | _ \<Rightarrow> VoidType)"

section \<open>The environment (Environment.py)\<close>

text \<open>
  A frame is a dictionary from names to pairs (value, type) and a parent frame. A child
  frame is created from the current one and dropped again before the parent is changed,
  so holding the parent by value is the same as holding the reference.
\<close>

datatype environment =
  Environment (records: "(literal \<times> (irvalue \<times> irtype)) list")
              (parent: "environment option") (env_name: string)

definition env_define :: "environment \<Rightarrow> literal \<Rightarrow> irvalue \<Rightarrow> irtype \<Rightarrow> environment" where
  "env_define e name v t = Environment (AList.update name (v, t) (records e)) (parent e) (env_name e)"

fun resolve :: "environment \<Rightarrow> literal \<Rightarrow> (irvalue \<times> irtype) option" where
  "resolve (Environment r p n) name =
     (case map_of r name of
        Some x \<Rightarrow> Some x
      | None \<Rightarrow> (case p of Some e \<Rightarrow> resolve e name | None \<Rightarrow> None))"

definition lookup :: "environment \<Rightarrow> literal \<Rightarrow> (irvalue \<times> irtype) option" where
  "lookup e name = resolve e name"

section \<open>The compiler state and the IR builder\<close>

text \<open>
  The fields of \<open>Compiler\<close> that the modelled visitors use. The module is kept as the
  instruction list of each function's entry block, keyed by the function's name;
  \<open>builder\<close> names the block the current \<open>IRBuilder\<close> appends to (\<open>None\<close> for the builder
  without a block that \<open>__init__\<close> creates); \<open>next_id\<close> gives each new instruction object
  its identity.
\<close>

record compiler =
  blocks :: "(literal \<times> irinstr list) list"
  builder :: "literal option"
  env :: environment
  counter :: nat
  next_id :: nat

definition emit :: "compiler \<Rightarrow> irinstr \<Rightarrow> exn + compiler" where
  "emit st i =
     (case builder st of
        None \<Rightarrow> Inl (AttributeError ''builder has no block'')
      | Some b \<Rightarrow>
          Inr (st\<lparr>blocks :=
                 AList.update b ((case map_of (blocks st) b of None \<Rightarrow> [] | Some is \<Rightarrow> is) @ [i])
                   (blocks st)\<rparr>))"

definition emit_value :: "compiler \<Rightarrow> irvalue \<Rightarrow> exn + (irvalue \<times> compiler)" where
  "emit_value st v =
     (case emit (st\<lparr>next_id := Suc (next_id st)\<rparr>) (Emit v) of
        Inl e \<Rightarrow> Inl e
      | Inr st' \<Rightarrow> Inr (v, st'))"

text \<open>
  The operations of \<open>llvmlite.ir.IRBuilder\<close> the compiler calls, with the checks the
  library makes when the instruction is built: \<open>store\<close> and \<open>load\<close> raise \<open>TypeError\<close>
  unless the pointer operand has a pointer type, and \<open>store\<close> also unless the pointee type
  equals the type of the stored value; a binary operation raises \<open>ValueError\<close> unless both
  operands have the same type; a cast to the type the value already has returns the
  value itself; \<open>call\<close> checks the declared parameter types. Failures of the library that
  show only later (duplicate symbol names, instructions after a terminator, IR
  verification) are outside the model.
\<close>

definition alloca :: "compiler \<Rightarrow> irtype \<Rightarrow> exn + (irvalue \<times> compiler)" where
  "alloca st ty = emit_value st (AllocaInstr (next_id st) ty)"

definition store :: "compiler \<Rightarrow> irvalue \<Rightarrow> irvalue \<Rightarrow> exn + compiler" where
  "store st v p =
     (if \<not> is_PointerType (vtype p) then Inl (TypeError ''cannot store to value: not a pointer'')
      else if vtype p \<noteq> PointerType (vtype v) then Inl (TypeError ''cannot store: mismatching types'')
      else emit st (Store v p))"

definition load :: "compiler \<Rightarrow> irvalue \<Rightarrow> exn + (irvalue \<times> compiler)" where
  "load st p =
     (if \<not> is_PointerType (vtype p) then Inl (TypeError ''cannot load from value: not a pointer'')
      else emit_value st (LoadInstr (next_id st) p))"

definition castop :: "string \<Rightarrow> compiler \<Rightarrow> irvalue \<Rightarrow> irtype \<Rightarrow> exn + (irvalue \<times> compiler)" where
  "castop opname st v ty =
     (if vtype v = ty then Inr (v, st)
      else emit_value st (CastInstr (next_id st) opname v ty))"

definition sitofp :: "compiler \<Rightarrow> irvalue \<Rightarrow> irtype \<Rightarrow> exn + (irvalue \<times> compiler)" where
  "sitofp = castop ''sitofp''"

definition bitcast :: "compiler \<Rightarrow> irvalue \<Rightarrow> irtype \<Rightarrow> exn + (irvalue \<times> compiler)" where
  "bitcast = castop ''bitcast''"

definition binop :: "string \<Rightarrow> compiler \<Rightarrow> irvalue \<Rightarrow> irvalue \<Rightarrow> exn + (irvalue \<times> compiler)" where
  "binop opname st l r =
     (if vtype l \<noteq> vtype r then Inl (ValueError ''Operands must be the same type'')
      else emit_value st (BinInstr (next_id st) opname l r))"

definition comparison_operators :: "literal list" where
  "comparison_operators = [LStr ''<'', LStr ''>'', LStr ''<='', LStr ''>='', LStr ''=='', LStr ''!='']"

definition cmpop :: "string \<Rightarrow> compiler \<Rightarrow> literal \<Rightarrow> irvalue \<Rightarrow> irvalue \<Rightarrow> exn + (irvalue \<times> compiler)" where
  "cmpop kind st operator l r =
     (if operator \<notin> set comparison_operators then Inl (ValueError ''invalid comparison'')
      else emit_value st (CompareInstr (next_id st) kind operator l r))"

definition icmp_signed :: "compiler \<Rightarrow> literal \<Rightarrow> irvalue \<Rightarrow> irvalue \<Rightarrow> exn + (irvalue \<times> compiler)" where
  "icmp_signed = cmpop ''icmp''"

definition fcmp_ordered :: "compiler \<Rightarrow> literal \<Rightarrow> irvalue \<Rightarrow> irvalue \<Rightarrow> exn + (irvalue \<times> compiler)" where
  "fcmp_ordered = cmpop ''fcmp''"

definition call :: "compiler \<Rightarrow> irvalue \<Rightarrow> irvalue list \<Rightarrow> exn + (irvalue \<times> compiler)" where
  "call st f args =
     (case f of
        Function _ rt ats va \<Rightarrow>
          if length args < length ats then Inl (IndexError ''list index out of range'')
          else if \<not> list_all2 (\<lambda>a t. vtype a = t) (take (length ats) args) ats
          then Inl (TypeError ''Type of arg mismatch'')
          else emit_value st (CallInstr (next_id st) f args)
      | _ \<Rightarrow> Inl (AttributeError ''function_type''))"

definition ret :: "compiler \<Rightarrow> irvalue \<Rightarrow> exn + compiler" where
  "ret st v = emit st (Ret v)"

text \<open>Using a Python object that may be \<open>None\<close> where the library reads its attributes.\<close>

definition need :: "'a option \<Rightarrow> exn + 'a" where
  "need x = (case x of None \<Rightarrow> Inl (AttributeError ''NoneType object has no attribute'') | Some v \<Rightarrow> Inr v)"

fun need_all :: "'a option list \<Rightarrow> exn + 'a list" where
  "need_all [] = Inr []"
| "need_all (x # xs) =
     (case x of
        None \<Rightarrow> Inl (AttributeError ''NoneType object has no attribute'')
      | Some v \<Rightarrow> (case need_all xs of Inl e \<Rightarrow> Inl e | Inr vs \<Rightarrow> Inr (v # vs)))"

text \<open>\<open>Compiler.type_map\<close>.\<close>

definition type_map :: "literal \<Rightarrow> irtype option" where
  "type_map = map_of
     [(LStr ''int'', IntType 64), (LStr ''float'', DoubleType), (LStr ''bool'', IntType 1),
      (LStr ''str'', PointerType (IntType 8)), (LStr ''void'', VoidType)]"

definition i64 :: irtype where "i64 = IntType 64"
definition f64 :: irtype where "f64 = DoubleType"
definition i8ptr :: irtype where "i8ptr = PointerType (IntType 8)"

section \<open>Lowering of expressions (Compiler.py)\<close>

text \<open>Sequencing of steps that may raise: the first exception ends the computation.\<close>

definition then_do :: "exn + 'a \<Rightarrow> ('a \<Rightarrow> exn + 'b) \<Rightarrow> exn + 'b" where
  "then_do m f = (case m of Inl e \<Rightarrow> Inl e | Inr x \<Rightarrow> f x)"

definition some_value :: "exn + (irvalue \<times> compiler) \<Rightarrow> exn + (irvalue option \<times> compiler)" where
  "some_value m = then_do m (\<lambda>(v, st). Inr (Some v, st))"

text \<open>Unpacking the result of \<open>env.lookup\<close>, which is \<open>None\<close> for an unbound name.\<close>

definition lookup_pair :: "compiler \<Rightarrow> literal \<Rightarrow> exn + (irvalue \<times> irtype)" where
  "lookup_pair st name =
     (case lookup (env st) name of
        None \<Rightarrow> Inl (TypeError ''cannot unpack non-iterable NoneType object'')
      | Some x \<Rightarrow> Inr x)"

definition convert_string :: "compiler \<Rightarrow> literal \<Rightarrow> exn + ((irvalue \<times> irtype) \<times> compiler)" where
  "convert_string st s =
     (case s of
        LStr text \<Rightarrow>
          (let fmt = string_bytes text;
               size = Constant (IntType 64) (LInt (int (length fmt)));
               c_fmt = Constant (ArrayType (IntType 8) (length fmt)) (LStr fmt)
           in then_do (lookup_pair st (LStr ''_alloc'')) (\<lambda>(alloc_fn, _).
              then_do (call st alloc_fn [size]) (\<lambda>(ptr, st1).
              then_do (alloca st1 (vtype c_fmt)) (\<lambda>(temp, st2).
              then_do (store st2 c_fmt temp) (\<lambda>st3.
              then_do (bitcast st3 temp i8ptr) (\<lambda>(temp_cast, st4).
              then_do (bitcast st4 ptr i8ptr) (\<lambda>(ptr_cast, st5).
              then_do (lookup_pair st5 (LStr ''_memcpy'')) (\<lambda>(memcpy_fn, _).
              then_do (call st5 memcpy_fn [ptr_cast, temp_cast, size]) (\<lambda>(_, st6).
              Inr ((ptr, PointerType (IntType 8)), st6))))))))))
      | _ \<Rightarrow> Inl (AttributeError ''replace''))"

definition builtin_pow :: "compiler \<Rightarrow> irvalue \<Rightarrow> irvalue \<Rightarrow> exn + (irvalue \<times> compiler)" where
  "builtin_pow st left_value right_value =
     then_do (lookup_pair st (LStr ''pow'')) (\<lambda>(func, ret_type).
     then_do (if is_IntType (vtype left_value) then sitofp st left_value f64
              else Inr (left_value, st)) (\<lambda>(l, st1).
     then_do (if is_IntType (vtype right_value) then sitofp st1 right_value f64
              else Inr (right_value, st1)) (\<lambda>(r, st2).
     call st2 func [l, r])))"

definition builtin_len :: "compiler \<Rightarrow> irvalue \<Rightarrow> exn + (irvalue \<times> compiler)" where
  "builtin_len st s =
     then_do (lookup_pair st (LStr ''len'')) (\<lambda>(func, ret_type). call st func [s])"

definition builtin_print :: "compiler \<Rightarrow> irvalue list \<Rightarrow> irtype \<Rightarrow> exn + (irvalue \<times> compiler)" where
  "builtin_print st params return_type =
     then_do (lookup_pair st (LStr ''print'')) (\<lambda>(func, _).
     then_do (alloca st return_type) (\<lambda>(c_str, st1).
     (case params of
        [] \<Rightarrow> Inl (IndexError ''list index out of range'')
      | p0 # rest_params \<Rightarrow>
          then_do (store st1 p0 c_str) (\<lambda>st2.
          (case p0 of
             LoadInstr _ g_var_ptr \<Rightarrow>
               then_do (load st2 g_var_ptr) (\<lambda>(string_val, st3).
               then_do (bitcast st3 string_val i8ptr) (\<lambda>(fmt_arg, st4).
               call st4 func (fmt_arg # rest_params)))
           | _ \<Rightarrow>
               then_do (bitcast st2 p0 i8ptr) (\<lambda>(fmt_arg, st3).
               call st3 func (fmt_arg # rest_params)))))))"

definition handle_string_concatenation ::
  "compiler \<Rightarrow> irvalue \<Rightarrow> irvalue \<Rightarrow> exn + ((irvalue \<times> irtype) \<times> compiler)" where
  "handle_string_concatenation st left_value right_value =
     then_do (lookup_pair st (LStr ''_strcat'')) (\<lambda>(fn, ret_type).
     then_do (bitcast st left_value i8ptr) (\<lambda>(str1_char_ptr, st1).
     then_do (bitcast st1 right_value i8ptr) (\<lambda>(str2_char_ptr, st2).
     then_do (call st2 fn [str1_char_ptr, str2_char_ptr]) (\<lambda>(result, st3).
     Inr ((result, ret_type), st3)))))"

definition handle_int_operations ::
  "compiler \<Rightarrow> literal \<Rightarrow> irvalue \<Rightarrow> irvalue \<Rightarrow> exn + (irvalue option \<times> compiler)" where
  "handle_int_operations st operator left_value right_value =
     (if operator = LStr ''+'' then some_value (binop ''add'' st left_value right_value)
      else if operator = LStr ''-'' then some_value (binop ''sub'' st left_value right_value)
      else if operator = LStr ''*'' then some_value (binop ''mul'' st left_value right_value)
      else if operator = LStr ''/'' then some_value (binop ''sdiv'' st left_value right_value)
      else if operator = LStr ''%'' then some_value (binop ''srem'' st left_value right_value)
      else if operator = LStr ''**'' then some_value (builtin_pow st left_value right_value)
      else if operator \<in> set comparison_operators
      then some_value (icmp_signed st operator left_value right_value)
      else Inr (None, st))"

definition handle_float_operations ::
  "compiler \<Rightarrow> literal \<Rightarrow> irvalue \<Rightarrow> irvalue \<Rightarrow> exn + (irvalue option \<times> compiler)" where
  "handle_float_operations st operator left_value right_value =
     (if operator = LStr ''+'' then some_value (binop ''fadd'' st left_value right_value)
      else if operator = LStr ''-'' then some_value (binop ''fsub'' st left_value right_value)
      else if operator = LStr ''*'' then some_value (binop ''fmul'' st left_value right_value)
      else if operator = LStr ''/'' then some_value (binop ''fdiv'' st left_value right_value)
      else if operator = LStr ''%'' then some_value (binop ''frem'' st left_value right_value)
      else if operator = LStr ''**'' then some_value (builtin_pow st left_value right_value)
      else if operator \<in> set comparison_operators
      then some_value (fcmp_ordered st operator left_value right_value)
      else Inr (None, st))"

text \<open>
  The result of lowering an expression: the pair (value, type handle) the visitor
  returns; either component can be \<open>None\<close>.
\<close>

type_synonym lowered = "irvalue option \<times> irtype option"

text \<open>
  The part of \<open>visit_infix_expression\<close> after both operands have been resolved. The
  type handle is set from the operand type handles alone; only a comparison operator
  changes it afterwards.
\<close>

definition infix_result_type :: "irtype \<Rightarrow> literal \<Rightarrow> irtype" where
  "infix_result_type t operator = (if operator \<in> set comparison_operators then IntType 1 else t)"

definition infix_operation ::
  "compiler \<Rightarrow> literal \<Rightarrow> lowered \<Rightarrow> lowered \<Rightarrow> exn + (lowered \<times> compiler)" where
  "infix_operation st operator l r =
     (case (l, r) of ((left_value, left_type), (right_value, right_type)) \<Rightarrow>
        if isinstance left_type is_IntType \<and> isinstance right_type is_IntType then
          then_do (need left_value) (\<lambda>lv. then_do (need right_value) (\<lambda>rv.
          then_do (handle_int_operations st operator lv rv) (\<lambda>(value, st1).
          Inr ((value, Some (infix_result_type i64 operator)), st1))))
        else if isinstance left_type is_DoubleType \<and> isinstance right_type is_DoubleType then
          then_do (need left_value) (\<lambda>lv. then_do (need right_value) (\<lambda>rv.
          then_do (handle_float_operations st operator lv rv) (\<lambda>(value, st1).
          Inr ((value, Some (infix_result_type f64 operator)), st1))))
        else if isinstance left_type is_IntType \<and> isinstance right_type is_DoubleType then
          then_do (need left_value) (\<lambda>lv0. then_do (sitofp st lv0 f64) (\<lambda>(lv, st1).
          then_do (need right_value) (\<lambda>rv.
          then_do (handle_float_operations st1 operator lv rv) (\<lambda>(value, st2).
          Inr ((value, Some (infix_result_type f64 operator)), st2)))))
        else if isinstance left_type is_DoubleType \<and> isinstance right_type is_IntType then
          then_do (need right_value) (\<lambda>rv0. then_do (sitofp st rv0 f64) (\<lambda>(rv, st1).
          then_do (need left_value) (\<lambda>lv.
          then_do (handle_float_operations st1 operator lv rv) (\<lambda>(value, st2).
          Inr ((value, Some (infix_result_type f64 operator)), st2)))))
        else if isinstance left_type is_PointerType \<and> isinstance right_type is_PointerType
                \<and> operator = LStr ''+'' then
          then_do (need left_value) (\<lambda>lv. then_do (need right_value) (\<lambda>rv.
          then_do (handle_string_concatenation st lv rv) (\<lambda>((value, result_type), st1).
          Inr ((Some value, Some result_type), st1))))
        else Inr ((None, None), st))"

text \<open>The part of \<open>visit_prefix_expression\<close> after the operand has been resolved.\<close>

definition prefix_operation :: "compiler \<Rightarrow> literal \<Rightarrow> lowered \<Rightarrow> exn + (lowered \<times> compiler)" where
  "prefix_operation st operator r =
     (case r of (right_value, right_type) \<Rightarrow>
        if isinstance right_type is_DoubleType then
          (if operator = LStr ''-'' then
             then_do (need right_value) (\<lambda>rv.
             then_do (binop ''fmul'' st rv (Constant f64 (LFloat ''-1.0''))) (\<lambda>(value, st1).
             Inr ((Some value, Some f64), st1)))
           else if operator = LStr ''not'' then
             then_do (need right_value) (\<lambda>rv.
             then_do (fcmp_ordered st (LStr ''=='') rv (Constant DoubleType (LFloat ''0.0''))) (\<lambda>(value, st1).
             Inr ((Some value, Some f64), st1)))
           else Inr ((None, Some f64), st))
        else if isinstance right_type is_IntType then
          (if operator = LStr ''-'' then
             then_do (need right_value) (\<lambda>rv.
             then_do (binop ''mul'' st rv (Constant i64 (LInt (- 1)))) (\<lambda>(value, st1).
             Inr ((Some value, Some i64), st1)))
           else if operator = LStr ''not'' then
             then_do (need right_value) (\<lambda>rv.
             then_do (icmp_signed st (LStr ''=='') rv (Constant (IntType 64) (LInt 0))) (\<lambda>(value, st1).
             Inr ((Some value, Some i64), st1)))
           else Inr ((None, Some i64), st))
        else Inr ((None, None), st))"

text \<open>
  The part of \<open>visit_call_expression\<close> after the arguments have been resolved: the
  built-ins \<open>print\<close>, \<open>pow\<close> and \<open>len\<close> are matched by name, any other name is looked up.
  A \<open>None\<close> among the argument values is taken to raise when the call is built.
\<close>

definition call_operation :: "compiler \<Rightarrow> literal \<Rightarrow> lowered list \<Rightarrow> exn + (lowered \<times> compiler)" where
  "call_operation st name params =
     (let args = map fst params; types = map snd params in
      if name = LStr ''print'' then
        (case types of
           [] \<Rightarrow> Inl (IndexError ''list index out of range'')
         | t0 # _ \<Rightarrow>
             then_do (need t0) (\<lambda>return_type. then_do (need_all args) (\<lambda>vs.
             then_do (builtin_print st vs return_type) (\<lambda>(r, st1).
             Inr ((Some r, Some i64), st1)))))
      else if name = LStr ''pow'' then
        (case args of
           a0 # a1 # _ \<Rightarrow>
             then_do (need a0) (\<lambda>v0. then_do (need a1) (\<lambda>v1.
             then_do (builtin_pow st v0 v1) (\<lambda>(r, st1).
             Inr ((Some r, Some f64), st1))))
         | _ \<Rightarrow> Inl (IndexError ''list index out of range''))
      else if name = LStr ''len'' then
        (case args of
           a0 # _ \<Rightarrow>
             then_do (need a0) (\<lambda>v0.
             then_do (builtin_len st v0) (\<lambda>(r, st1).
             Inr ((Some r, Some i64), st1)))
         | _ \<Rightarrow> Inl (IndexError ''list index out of range''))
      else
        then_do (lookup_pair st name) (\<lambda>(func, ret_type).
        then_do (need_all args) (\<lambda>vs.
        then_do (call st func vs) (\<lambda>(r, st1).
        Inr ((Some r, Some ret_type), st1)))))"

text \<open>
  \<open>resolve_value\<close>, with the bodies of the three visitors it dispatches to written in
  place (\<open>visit_infix_expression\<close>, \<open>visit_call_expression\<close> and
  \<open>visit_prefix_expression\<close> resolve their operands through \<open>resolve_value\<close> again).
  \<open>resolve_args\<close> is the loop of \<open>visit_call_expression\<close> over the arguments;
  \<open>node.function.value\<close> is read before the arguments are lowered.
\<close>

fun resolve_value :: "compiler \<Rightarrow> expr \<Rightarrow> exn + (lowered \<times> compiler)"
  and resolve_args :: "compiler \<Rightarrow> expr list \<Rightarrow> exn + (lowered list \<times> compiler)"
where
  "resolve_value st (IntegerLiteral v) = Inr ((Some (Constant (IntType 64) v), Some (IntType 64)), st)"
| "resolve_value st (FloatLiteral v) = Inr ((Some (Constant DoubleType v), Some DoubleType), st)"
| "resolve_value st (IdentifierLiteral v) =
     (case lookup_pair st v of
        Inl e \<Rightarrow> Inl e
      | Inr (ptr, typ) \<Rightarrow>
          (case load st ptr of Inl e \<Rightarrow> Inl e | Inr (x, st1) \<Rightarrow> Inr ((Some x, Some typ), st1)))"
| "resolve_value st (BooleanLiteral b) =
     Inr ((Some (Constant (IntType 1) (LInt (if b then 1 else 0))), Some (IntType 1)), st)"
| "resolve_value st (StringLiteral v) =
     (case convert_string st v of
        Inl e \<Rightarrow> Inl e
      | Inr ((string, typ), st1) \<Rightarrow> Inr ((Some string, Some typ), st1))"
| "resolve_value st (InfixExpression left_node operator right_node) =
     (case resolve_value st left_node of
        Inl e \<Rightarrow> Inl e
      | Inr (l, st1) \<Rightarrow>
          (case resolve_value st1 right_node of
             Inl e \<Rightarrow> Inl e
           | Inr (r, st2) \<Rightarrow> infix_operation st2 operator l r))"
| "resolve_value st (CallExpression function args) =
     (case node_value function of
        None \<Rightarrow> Inl (AttributeError ''value'')
      | Some name \<Rightarrow>
          (case resolve_args st args of
             Inl e \<Rightarrow> Inl e
           | Inr (params, st1) \<Rightarrow> call_operation st1 name params))"
| "resolve_value st (PrefixExpression operator right_node) =
     (case resolve_value st right_node of
        Inl e \<Rightarrow> Inl e
      | Inr (r, st1) \<Rightarrow> prefix_operation st1 operator r)"
| "resolve_args st [] = Inr ([], st)"
| "resolve_args st (x # xs) =
     (case resolve_value st x of
        Inl e \<Rightarrow> Inl e
      | Inr (p, st1) \<Rightarrow>
          (case resolve_args st1 xs of
             Inl e \<Rightarrow> Inl e
           | Inr (ps, st2) \<Rightarrow> Inr (p # ps, st2)))"

definition visit_infix_expression :: "compiler \<Rightarrow> expr \<Rightarrow> literal \<Rightarrow> expr \<Rightarrow> exn + (lowered \<times> compiler)" where
  "visit_infix_expression st left_node operator right_node =
     resolve_value st (InfixExpression left_node operator right_node)"

definition visit_call_expression :: "compiler \<Rightarrow> expr \<Rightarrow> expr list \<Rightarrow> exn + (lowered \<times> compiler)" where
  "visit_call_expression st function args = resolve_value st (CallExpression function args)"

definition visit_prefix_expression :: "compiler \<Rightarrow> literal \<Rightarrow> expr \<Rightarrow> exn + (lowered \<times> compiler)" where
  "visit_prefix_expression st operator right_node =
     resolve_value st (PrefixExpression operator right_node)"

section \<open>Lowering of statements (Compiler.py)\<close>

definition default_values :: "literal \<Rightarrow> expr option" where
  "default_values = map_of
     [(LStr ''int'', IntegerLiteral (LInt 0)), (LStr ''float'', FloatLiteral (LFloat ''0.0'')),
      (LStr ''bool'', BooleanLiteral False), (LStr ''str'', StringLiteral (LStr ''''))]"

definition node_name :: "expr \<Rightarrow> exn + literal" where
  "node_name n = (case node_value n of None \<Rightarrow> Inl (AttributeError ''value'') | Some v \<Rightarrow> Inr v)"

text \<open>
  \<open>visit_var_statement\<close>. The test that decides between a new slot and an existing one is
  \<open>self.env.lookup(name) is None\<close>, and \<open>lookup\<close> walks the whole chain of frames.
\<close>

definition visit_var_statement ::
  "compiler \<Rightarrow> expr \<Rightarrow> expr option \<Rightarrow> literal \<Rightarrow> exn + compiler" where
  "visit_var_statement st name_node value value_type =
     then_do (node_name name_node) (\<lambda>name.
     then_do (case value of
                None \<Rightarrow> (case default_values value_type of
                           None \<Rightarrow> Inl (TypeError ''Unsupported type for variable'')
                         | Some d \<Rightarrow> Inr d)
              | Some v \<Rightarrow> Inr v) (\<lambda>value.
     then_do (resolve_value st value) (\<lambda>((value, type_info), st1).
     if lookup (env st1) name = None then
       then_do (need type_info) (\<lambda>ty.
       then_do (alloca st1 ty) (\<lambda>(ptr, st2).
       then_do (need value) (\<lambda>v.
       then_do (store st2 v ptr) (\<lambda>st3.
       Inr (st3\<lparr>env := env_define (env st3) name ptr ty\<rparr>)))))
     else
       then_do (lookup_pair st1 name) (\<lambda>(ptr, _).
       then_do (need value) (\<lambda>v.
       store st1 v ptr)))))"

text \<open>
  The \<open>match operator\<close> of \<open>visit_assign_statement\<close>: the value to store back, from the
  loaded value, the right-hand value and the right-hand type handle.
\<close>

definition arith_assign ::
  "string \<Rightarrow> string \<Rightarrow> compiler \<Rightarrow> irvalue \<Rightarrow> irvalue option \<Rightarrow> irtype option
     \<Rightarrow> exn + (irvalue option \<times> compiler)" where
  "arith_assign int_op float_op st orig_value right_value right_type =
     then_do (need right_value) (\<lambda>rv.
     if is_IntType (vtype orig_value) \<and> isinstance right_type is_IntType
     then some_value (binop int_op st orig_value rv)
     else some_value (binop float_op st orig_value rv))"

definition assign_operation ::
  "compiler \<Rightarrow> literal \<Rightarrow> irvalue \<Rightarrow> irvalue option \<Rightarrow> irtype option
     \<Rightarrow> exn + (irvalue option \<times> compiler)" where
  "assign_operation st operator orig_value right_value right_type =
     (if operator = LStr ''='' then Inr (right_value, st)
      else if operator = LStr ''+='' then
        then_do (need right_value) (\<lambda>rv.
        if is_IntType (vtype orig_value) \<and> isinstance right_type is_IntType
        then some_value (binop ''add'' st orig_value rv)
        else if is_PointerType (vtype orig_value) \<and> isinstance right_type is_PointerType
        then then_do (handle_string_concatenation st orig_value rv) (\<lambda>((value, _), st1).
             Inr (Some value, st1))
        else some_value (binop ''fadd'' st orig_value rv))
      else if operator = LStr ''-='' then arith_assign ''sub'' ''fsub'' st orig_value right_value right_type
      else if operator = LStr ''*='' then arith_assign ''mul'' ''fmul'' st orig_value right_value right_type
      else if operator = LStr ''/='' then arith_assign ''sdiv'' ''fdiv'' st orig_value right_value right_type
      else if operator = LStr ''%='' then arith_assign ''srem'' ''frem'' st orig_value right_value right_type
      else if operator = LStr ''**='' then
        then_do (need right_value) (\<lambda>rv. some_value (builtin_pow st orig_value rv))
      else Inl (NotImplementedError ''Unsupported assignment operator''))"

definition visit_assign_statement ::
  "compiler \<Rightarrow> expr \<Rightarrow> literal \<Rightarrow> expr \<Rightarrow> exn + compiler" where
  "visit_assign_statement st ident operator value =
     then_do (node_name ident) (\<lambda>name.
     if lookup (env st) name = None then Inl (NameError ''Variable not defined.'')
     else
       then_do (resolve_value st value) (\<lambda>((right_value, right_type), st1).
       then_do (lookup_pair st1 name) (\<lambda>(var_ptr, _).
       then_do (load st1 var_ptr) (\<lambda>(orig_value0, st2).
       then_do (if is_IntType (vtype orig_value0) \<and> isinstance right_type is_DoubleType
                then sitofp st2 orig_value0 f64 else Inr (orig_value0, st2)) (\<lambda>(orig_value, st3).
       then_do (if is_DoubleType (vtype orig_value) \<and> isinstance right_type is_IntType
                then then_do (need right_value) (\<lambda>rv. some_value (sitofp st3 rv f64))
                else Inr (right_value, st3)) (\<lambda>(right_value1, st4).
       then_do (assign_operation st4 operator orig_value right_value1 right_type) (\<lambda>(value, st5).
       then_do (lookup_pair st5 name) (\<lambda>(ptr, _).
       then_do (need value) (\<lambda>v.
       store st5 v ptr)))))))))"

definition visit_return_statement :: "compiler \<Rightarrow> expr \<Rightarrow> exn + compiler" where
  "visit_return_statement st value =
     then_do (resolve_value st value) (\<lambda>((value, _), st1).
     then_do (need value) (\<lambda>v. ret st1 v))"

text \<open>
  \<open>compile\<close> applied to the expression of an expression statement: only infix, call and
  prefix expressions have a case; for any other node nothing is emitted.
\<close>

definition visit_expression_statement :: "compiler \<Rightarrow> expr \<Rightarrow> exn + compiler" where
  "visit_expression_statement st e =
     (case e of
        InfixExpression _ _ _ \<Rightarrow> then_do (resolve_value st e) (\<lambda>(_, st1). Inr st1)
      | CallExpression _ _ \<Rightarrow> then_do (resolve_value st e) (\<lambda>(_, st1). Inr st1)
      | PrefixExpression _ _ \<Rightarrow> then_do (resolve_value st e) (\<lambda>(_, st1). Inr st1)
      | _ \<Rightarrow> Inr st)"

text \<open>
  \<open>visit_function_statement\<close> up to the loop over the body: the function object, its
  entry block, the child frame with the parameters and the function's own name.
\<close>

fun type_map_all :: "literal list \<Rightarrow> exn + irtype list" where
  "type_map_all [] = Inr []"
| "type_map_all (t # ts) =
     (case type_map t of
        None \<Rightarrow> Inl (KeyError ''type_map'')
      | Some ty \<Rightarrow> (case type_map_all ts of Inl e \<Rightarrow> Inl e | Inr tys \<Rightarrow> Inr (ty # tys)))"

fun alloc_params :: "compiler \<Rightarrow> literal \<Rightarrow> nat \<Rightarrow> irtype list \<Rightarrow> exn + (irvalue list \<times> compiler)" where
  "alloc_params st fname i [] = Inr ([], st)"
| "alloc_params st fname i (typ # typs) =
     (case alloca st typ of
        Inl e \<Rightarrow> Inl e
      | Inr (ptr, st1) \<Rightarrow>
          (case store st1 (Argument fname i typ) ptr of
             Inl e \<Rightarrow> Inl e
           | Inr st2 \<Rightarrow>
               (case alloc_params st2 fname (Suc i) typs of
                  Inl e \<Rightarrow> Inl e
                | Inr (ptrs, st3) \<Rightarrow> Inr (ptr # ptrs, st3))))"

definition define_params ::
  "environment \<Rightarrow> literal list \<Rightarrow> irtype list \<Rightarrow> irvalue list \<Rightarrow> environment" where
  "define_params e names types ptrs =
     foldl (\<lambda>e' (n, t, p). env_define e' n p t) e (zip names (zip types ptrs))"

definition function_entry ::
  "compiler \<Rightarrow> FunctionParameter list \<Rightarrow> expr \<Rightarrow> literal
     \<Rightarrow> exn + ((literal \<times> irvalue \<times> irtype) \<times> compiler)" where
  "function_entry st params name_node return_type_name =
     then_do (node_name name_node) (\<lambda>name.
     then_do (type_map_all (map param_value_type params)) (\<lambda>param_types.
     then_do (case type_map return_type_name of
                None \<Rightarrow> Inl (KeyError ''type_map'') | Some t \<Rightarrow> Inr t) (\<lambda>return_type.
     (let func = Function name return_type param_types False;
          st1 = st\<lparr>blocks := AList.update name [] (blocks st),
                   builder := Some name,
                   env := Environment [] (Some (env st)) ''global''\<rparr>
      in then_do (alloc_params st1 name 0 param_types) (\<lambda>(params_ptr, st2).
         Inr ((name, func, return_type),
              st2\<lparr>env := env_define
                            (define_params (env st2) (map param_name params) param_types params_ptr)
                            name func return_type\<rparr>))))))"

text \<open>
  The statement dispatcher \<open>compile\<close>. The visitors for \<open>if\<close>, \<open>while\<close>, \<open>break\<close>,
  \<open>continue\<close> and \<open>import\<close> build basic blocks and read files; they are not part of this
  development, and the model marks a program that reaches them.
\<close>

fun compile :: "compiler \<Rightarrow> stmt \<Rightarrow> exn + compiler"
  and compile_all :: "compiler \<Rightarrow> stmt list \<Rightarrow> exn + compiler"
where
  "compile st (ExpressionStatement e) = visit_expression_statement st e"
| "compile st (VarStatement name_node value value_type) =
     visit_var_statement st name_node value value_type"
| "compile st (FunctionStatement params body name_node return_type_name) =
     (case function_entry st params name_node return_type_name of
        Inl e \<Rightarrow> Inl e
      | Inr ((name, func, return_type), st1) \<Rightarrow>
          (case compile_all st1 body of
             Inl e \<Rightarrow> Inl e
           | Inr st2 \<Rightarrow>
               Inr (st2\<lparr>env := env_define (env st) name func return_type,
                        builder := builder st\<rparr>)))"
| "compile st (ReturnStatement value) = visit_return_statement st value"
| "compile st (AssignStatement ident operator value) =
     visit_assign_statement st ident operator value"
| "compile st (IfStatement c b e) = Inl (Exception ''if: not modelled'')"
| "compile st (WhileStatement c b) = Inl (Exception ''while: not modelled'')"
| "compile st BreakStatement = Inl (Exception ''break: not modelled'')"
| "compile st ContinueStatement = Inl (Exception ''continue: not modelled'')"
| "compile st (ImportStatement p) = Inl (Exception ''import: not modelled'')"
| "compile_all st [] = Inr st"
| "compile_all st (s # ss) =
     (case compile st s of Inl e \<Rightarrow> Inl e | Inr st1 \<Rightarrow> compile_all st1 ss)"

definition visit_function_statement ::
  "compiler \<Rightarrow> FunctionParameter list \<Rightarrow> stmt list \<Rightarrow> expr \<Rightarrow> literal \<Rightarrow> exn + compiler" where
  "visit_function_statement st params body name_node return_type_name =
     compile st (FunctionStatement params body name_node return_type_name)"

text \<open>\<open>initialize_builtins\<close> and the state of a new \<open>Compiler\<close>.\<close>

definition builtins :: "(literal \<times> (irvalue \<times> irtype)) list" where
  "builtins =
     [(LStr ''print'', (Function (LStr ''printf'') i64 [i8ptr] True, i64)),
      (LStr ''_alloc'', (Function (LStr ''alloc'') i8ptr [i64] False, i8ptr)),
      (LStr ''_memcpy'', (Function (LStr ''memcpy'') i8ptr [i8ptr, i8ptr, i64] False, i8ptr)),
      (LStr ''_strcat'', (Function (LStr ''_strcat'') i8ptr [i8ptr, i8ptr] False, i8ptr)),
      (LStr ''pow'', (Function (LStr ''pow'') f64 [f64, f64] False, f64)),
      (LStr ''len'', (Function (LStr ''strlen'') i64 [i8ptr] False, i64)),
      (LStr ''true'', (GlobalVariable ''true'' (IntType 1), PointerType (IntType 1))),
      (LStr ''false'', (GlobalVariable ''false'' (IntType 1), PointerType (IntType 1)))]"

definition Compiler :: compiler where
  "Compiler = \<lparr>blocks = [], builder = None, env = Environment builtins None ''global'',
               counter = 0, next_id = 0\<rparr>"

definition main_name :: literal where
  "main_name = LStr ''.main''"

definition program_entry :: "compiler \<Rightarrow> compiler" where
  "program_entry st = st\<lparr>blocks := AList.update main_name [] (blocks st), builder := Some main_name\<rparr>"


section \<open>Sample inputs\<close>

text \<open>
  The token list the lexer produces for the two-line source text \<open>break\<close>, newline, \<open>;\<close>
  (file name \<open><stdin>\<close>): the keyword on line 1, the semicolon on line 2, and \<open>EOF\<close>.
  Every statement of this input is terminated by a semicolon already.
\<close>

definition break_semicolon_src :: string where
  "break_semicolon_src = ''break'' @ [CHR 0x0A] @ '';''"

definition break_semicolon_pos :: "int \<Rightarrow> int \<Rightarrow> int \<Rightarrow> position" where
  "break_semicolon_pos i l c =
     \<lparr>idx = i, ln = l, col = c, fn = ''<stdin>'', ftxt = break_semicolon_src\<rparr>"

definition break_semicolon_tokens :: "token list" where
  "break_semicolon_tokens =
     [Token BREAK (LStr ''break'') (break_semicolon_pos 0 1 1) (Some (break_semicolon_pos 5 1 6)),
      Token SEMICOLON (LStr '';'') (break_semicolon_pos 6 2 0) None,
      Token EOF LNone (break_semicolon_pos 7 2 1) None]"

text \<open>
  Vocabulary for the statements about the lowering: \<open>keeps st st'\<close> says that the
  environment and the builder of \<open>st'\<close> are those of \<open>st\<close>, and \<open>current_block\<close> is the
  instruction list of the block the builder appends to.
\<close>

definition keeps :: "compiler \<Rightarrow> compiler \<Rightarrow> bool" where
  "keeps st st' \<longleftrightarrow> env st' = env st \<and> builder st' = builder st"

definition current_block :: "compiler \<Rightarrow> irinstr list" where
  "current_block st =
     (case builder st of
        None \<Rightarrow> []
      | Some b \<Rightarrow> (case map_of (blocks st) b of None \<Rightarrow> [] | Some is \<Rightarrow> is))"


definition outer_var_state :: "exn + compiler" where
  "outer_var_state =
     visit_var_statement (program_entry Compiler)
       (IdentifierLiteral (LStr ''x'')) (Some (IntegerLiteral (LInt 1))) (LStr ''int'')"


text \<open>The statement \<open>x += 1\<close>.\<close>

definition increment_statement :: "compiler \<Rightarrow> exn + compiler" where
  "increment_statement st =
     visit_assign_statement st (IdentifierLiteral (LStr ''x'')) (LStr ''+='')
       (IntegerLiteral (LInt 1))"

(*DEFS-END*)

section \<open>Properties of the sanitizer\<close>

lemma semicolon_token_simps:
  "type (semicolon_token t) = SEMICOLON"
  "pos_start (semicolon_token t) = pos_end t"
  by (simp_all add: semicolon_token_def Token_def)

lemma pair_positions_subset:
  "set (pair_positions (Some p) cur) \<subseteq> {idx (pos_end p)}"
  by (auto simp add: pair_positions_def split: if_splits)

lemma pair_positions_semicolon_prev:
  "pair_positions (Some (semicolon_token p)) cur = []"
  by (simp add: pair_positions_def semicolon_token_simps closer_types_def final_types_def)

lemma pair_positions_semicolon_cur:
  "pair_positions (Some t) (semicolon_token t) = []"
  by (simp add: pair_positions_def semicolon_token_simps)

lemma pair_positions_prev_out:
  assumes "set (pair_positions prev t) \<subseteq> S"
  shows "pair_positions (prev_out S prev) t = []"
proof (cases prev)
  case None
  then show ?thesis by (simp add: prev_out_def pair_positions_def)
next
  case (Some p)
  show ?thesis
  proof (cases "idx (pos_end p) \<in> S")
    case True
    then show ?thesis using Some by (simp add: prev_out_def pair_positions_semicolon_prev)
  next
    case False
    have "set (pair_positions (Some p) t) \<subseteq> {idx (pos_end p)} \<inter> S"
      using assms Some pair_positions_subset[of p t] by blast
    then have "set (pair_positions (Some p) t) = {}" using False by auto
    then show ?thesis using Some False by (simp add: prev_out_def)
  qed
qed

lemma insert_positions_reconstruct:
  "set (insert_positions prev ts) \<subseteq> S \<Longrightarrow>
   insert_positions (prev_out S prev) (reconstruct S ts) = []"
proof (induction ts arbitrary: prev)
  case Nil
  then show ?case by simp
next
  case (Cons t ts)
  from Cons.prems have a: "set (pair_positions prev t) \<subseteq> S"
    and b: "set (insert_positions (Some t) ts) \<subseteq> S" by simp_all
  have ih: "insert_positions (prev_out S (Some t)) (reconstruct S ts) = []"
    using Cons.IH[OF b] .
  have h: "pair_positions (prev_out S prev) t = []"
    using pair_positions_prev_out[OF a] .
  show ?case
  proof (cases "idx (pos_end t) \<in> S")
    case True
    then show ?thesis using ih h
      by (simp add: prev_out_def pair_positions_semicolon_cur)
  next
    case False
    then show ?thesis using ih h by (simp add: prev_out_def)
  qed
qed

lemma reconstruct_empty: "reconstruct {} ts = ts"
  by (induction ts) simp_all

text \<open>
  Claim C9 says in its second half that the sanitizer inserts nothing into input whose
  statements are already terminated by semicolons. The code does insert there: after
  \<open>break\<close> (and \<open>continue\<close>) at the end of a line it inserts a semicolon whatever the
  next token is, so for \<open>break\<close>, newline, \<open>;\<close> the output is \<open>BREAK ; ; EOF\<close>.
\<close>

theorem sanitize_break_semicolon_inserts:
  "map type (sanitize break_semicolon_tokens) = [BREAK, SEMICOLON, SEMICOLON, EOF] \<and>
   sanitize break_semicolon_tokens \<noteq> break_semicolon_tokens"
proof -
  have a: "map type (sanitize break_semicolon_tokens) = [BREAK, SEMICOLON, SEMICOLON, EOF]"
    by (simp add: sanitize_def break_semicolon_tokens_def break_semicolon_pos_def
        pair_positions_def Token_def advance_pos_def semicolon_token_def
        closer_types_def final_types_def)
  have b: "map type break_semicolon_tokens = [BREAK, SEMICOLON, EOF]"
    by (simp add: break_semicolon_tokens_def Token_def)
  have "sanitize break_semicolon_tokens \<noteq> break_semicolon_tokens"
  proof
    assume "sanitize break_semicolon_tokens = break_semicolon_tokens"
    then have "map type (sanitize break_semicolon_tokens) = map type break_semicolon_tokens"
      by simp
    with a b show False by simp
  qed
  with a show ?thesis by simp
qed

text \<open>
  Claim C9, amended. The sanitizer is idempotent: for every token sequence \<open>T\<close>,
  sanitizing the sanitized sequence gives the sanitized sequence again; in particular,
  running it on the output of the sanitizer inserts nothing: the first loop finds no
  position at which a semicolon is to be inserted.
\<close>

theorem sanitize_idempotent:
  "sanitize (sanitize T) = sanitize T \<and> insert_positions None (sanitize T) = []"
proof -
  have "insert_positions (prev_out (set (insert_positions None T)) None)
          (reconstruct (set (insert_positions None T)) T) = []"
    by (rule insert_positions_reconstruct) simp
  then have e: "insert_positions None (sanitize T) = []"
    by (simp add: prev_out_def sanitize_def)
  then have "sanitize (sanitize T) = sanitize T"
    by (simp add: sanitize_def[of "sanitize T"] reconstruct_empty)
  with e show ?thesis by simp
qed

section \<open>Properties of string decoding\<close>

text \<open>
  Claim C4 says that the literal text backslash, backslash, \<open>n\<close> decodes to the two bytes
  backslash and \<open>n\<close> (followed by the terminator). The code replaces backslash-\<open>n\<close> first
  and backslash-backslash only afterwards, so on this text it yields backslash, newline,
  NUL: the first replacement consumes the second backslash together with the \<open>n\<close>.
\<close>

theorem convert_string_double_backslash_n:
  "string_bytes [CHR 0x5C, CHR 0x5C, CHR ''n''] = [CHR 0x5C, CHR 0x0A, CHR 0x00]"
  by (simp add: string_bytes_def decode_escapes_def endswith_def BSL_def)

section \<open>Properties of the lowering\<close>

text \<open>
  Lowering an expression, and every operation of the builder, leaves the environment and
  the builder as they are: only instructions are appended and identities consumed.
\<close>

lemma keeps_refl: "keeps st st"
  by (simp add: keeps_def)

lemma then_doE:
  assumes "then_do m f = Inr y"
  obtains x where "m = Inr x" and "f x = Inr y"
  using assms by (cases m) (simp_all add: then_do_def)

lemma emit_keeps: "emit st i = Inr st' \<Longrightarrow> keeps st st'"
  by (auto simp add: emit_def keeps_def split: option.splits)

lemma emit_value_keeps: "emit_value st v = Inr (x, st') \<Longrightarrow> keeps st st'"
  by (auto simp add: emit_value_def emit_def keeps_def split: option.splits sum.splits)

lemma alloca_keeps: "alloca st ty = Inr (x, st') \<Longrightarrow> keeps st st'"
  by (auto simp add: alloca_def dest: emit_value_keeps)

lemma store_keeps: "store st v p = Inr st' \<Longrightarrow> keeps st st'"
  by (auto simp add: store_def dest: emit_keeps split: if_splits)

lemma load_keeps: "load st p = Inr (x, st') \<Longrightarrow> keeps st st'"
  by (auto simp add: load_def dest: emit_value_keeps split: if_splits)

lemma castop_keeps: "castop n st v ty = Inr (x, st') \<Longrightarrow> keeps st st'"
  by (auto simp add: castop_def keeps_refl dest: emit_value_keeps split: if_splits)

lemma sitofp_keeps: "sitofp st v ty = Inr (x, st') \<Longrightarrow> keeps st st'"
  by (simp add: sitofp_def castop_keeps)

lemma bitcast_keeps: "bitcast st v ty = Inr (x, st') \<Longrightarrow> keeps st st'"
  by (simp add: bitcast_def castop_keeps)

lemma binop_keeps: "binop n st l r = Inr (x, st') \<Longrightarrow> keeps st st'"
  by (auto simp add: binop_def dest: emit_value_keeps split: if_splits)

lemma cmpop_keeps: "cmpop k st operator l r = Inr (x, st') \<Longrightarrow> keeps st st'"
  by (auto simp add: cmpop_def dest: emit_value_keeps split: if_splits)

lemma icmp_signed_keeps: "icmp_signed st operator l r = Inr (x, st') \<Longrightarrow> keeps st st'"
  by (simp add: icmp_signed_def cmpop_keeps)

lemma fcmp_ordered_keeps: "fcmp_ordered st operator l r = Inr (x, st') \<Longrightarrow> keeps st st'"
  by (simp add: fcmp_ordered_def cmpop_keeps)

lemma call_keeps: "call st f args = Inr (x, st') \<Longrightarrow> keeps st st'"
  by (auto simp add: call_def dest: emit_value_keeps split: irvalue.splits if_splits)

lemma builtin_pow_keeps: "builtin_pow st l r = Inr (x, st') \<Longrightarrow> keeps st st'"
  unfolding builtin_pow_def
  by (auto elim!: then_doE split: if_splits dest!: sitofp_keeps call_keeps simp add: keeps_def)

lemma builtin_len_keeps: "builtin_len st s = Inr (x, st') \<Longrightarrow> keeps st st'"
  unfolding builtin_len_def
  by (auto elim!: then_doE dest!: call_keeps)

lemma handle_string_concatenation_keeps:
  "handle_string_concatenation st l r = Inr (x, st') \<Longrightarrow> keeps st st'"
  unfolding handle_string_concatenation_def
  by (auto elim!: then_doE dest!: bitcast_keeps call_keeps simp add: keeps_def)

lemma builtin_print_keeps: "builtin_print st ps t = Inr (x, st') \<Longrightarrow> keeps st st'"
  unfolding builtin_print_def
  by (auto elim!: then_doE split: list.splits irvalue.splits
      dest!: bitcast_keeps call_keeps alloca_keeps store_keeps load_keeps simp add: keeps_def)

lemma convert_string_keeps: "convert_string st s = Inr (x, st') \<Longrightarrow> keeps st st'"
  unfolding convert_string_def Let_def
  by (auto elim!: then_doE split: literal.splits
      dest!: bitcast_keeps call_keeps alloca_keeps store_keeps simp add: keeps_def)

lemma handle_int_operations_keeps:
  "handle_int_operations st operator l r = Inr (x, st') \<Longrightarrow> keeps st st'"
  unfolding handle_int_operations_def some_value_def
  by (auto elim!: then_doE split: if_splits
      dest!: binop_keeps builtin_pow_keeps icmp_signed_keeps simp add: keeps_def)

lemma handle_float_operations_keeps:
  "handle_float_operations st operator l r = Inr (x, st') \<Longrightarrow> keeps st st'"
  unfolding handle_float_operations_def some_value_def
  by (auto elim!: then_doE split: if_splits
      dest!: binop_keeps builtin_pow_keeps fcmp_ordered_keeps simp add: keeps_def)

lemma infix_operation_keeps:
  "infix_operation st operator l r = Inr (x, st') \<Longrightarrow> keeps st st'"
  unfolding infix_operation_def
  by (auto elim!: then_doE split: if_splits prod.splits
      dest!: handle_int_operations_keeps handle_float_operations_keeps sitofp_keeps
        handle_string_concatenation_keeps simp add: keeps_def)

lemma prefix_operation_keeps:
  "prefix_operation st operator r = Inr (x, st') \<Longrightarrow> keeps st st'"
  unfolding prefix_operation_def
  by (auto elim!: then_doE split: if_splits prod.splits
      dest!: binop_keeps icmp_signed_keeps fcmp_ordered_keeps simp add: keeps_def)

lemma call_operation_keeps:
  "call_operation st name params = Inr (x, st') \<Longrightarrow> keeps st st'"
  unfolding call_operation_def Let_def
  by (auto elim!: then_doE split: if_splits list.splits
      dest!: builtin_print_keeps builtin_pow_keeps builtin_len_keeps call_keeps
      simp add: keeps_def)

lemma resolve_keeps:
  "resolve_value st e = Inr (x, st') \<Longrightarrow> keeps st st'"
  "resolve_args st es = Inr (xs, st') \<Longrightarrow> keeps st st'"
proof (induction st e and st es arbitrary: x st' and xs st'
       rule: resolve_value_resolve_args.induct)
  case (1 st v)
  then show ?case by (simp add: keeps_def)
next
  case (2 st v)
  then show ?case by (simp add: keeps_def)
next
  case (3 st v)
  then show ?case
    by (auto split: sum.splits prod.splits dest!: load_keeps)
next
  case (4 st b)
  then show ?case by (simp add: keeps_def)
next
  case (5 st v)
  then show ?case
    by (auto split: sum.splits prod.splits dest!: convert_string_keeps)
next
  case (6 st left_node operator right_node)
  from "6.prems" obtain l st1 r st2 where
    a: "resolve_value st left_node = Inr (l, st1)" and
    b: "resolve_value st1 right_node = Inr (r, st2)" and
    c: "infix_operation st2 operator l r = Inr (x, st')"
    by (auto split: sum.splits prod.splits)
  have "keeps st st1" using "6.IH"(1)[OF a] .
  moreover have "keeps st1 st2" using "6.IH"(2)[OF a refl b] .
  moreover have "keeps st2 st'" using infix_operation_keeps[OF c] .
  ultimately show ?case by (simp add: keeps_def)
next
  case (7 st callee args)
  from "7.prems" obtain name params st1 where
    a: "node_value callee = Some name" and
    b: "resolve_args st args = Inr (params, st1)" and
    c: "call_operation st1 name params = Inr (x, st')"
    by (auto split: sum.splits prod.splits option.splits)
  have "keeps st st1" using "7.IH"[OF a b] .
  moreover have "keeps st1 st'" using call_operation_keeps[OF c] .
  ultimately show ?case by (simp add: keeps_def)
next
  case (8 st operator right_node)
  from "8.prems" obtain r st1 where
    a: "resolve_value st right_node = Inr (r, st1)" and
    c: "prefix_operation st1 operator r = Inr (x, st')"
    by (auto split: sum.splits prod.splits)
  have "keeps st st1" using "8.IH"[OF a] .
  moreover have "keeps st1 st'" using prefix_operation_keeps[OF c] .
  ultimately show ?case by (simp add: keeps_def)
next
  case (9 st)
  then show ?case by (simp add: keeps_def)
next
  case (10 st x' xs')
  from "10.prems" obtain p st1 ps where
    a: "resolve_value st x' = Inr (p, st1)" and
    b: "resolve_args st1 xs' = Inr (ps, st')"
    by (auto split: sum.splits prod.splits)
  have "keeps st st1" using "10.IH"(1)[OF a] .
  moreover have "keeps st1 st'" using "10.IH"(2)[OF a refl b] .
  ultimately show ?case by (simp add: keeps_def)
qed


lemma emit_current_block:
  "emit st i = Inr st' \<Longrightarrow> current_block st' = current_block st @ [i]"
  by (auto simp add: emit_def current_block_def update_conv' split: option.splits)

lemma store_Inr:
  assumes "store st v p = Inr st'"
  shows "vtype p = PointerType (vtype v)" and "current_block st' = current_block st @ [Store v p]"
    and "keeps st st'"
  using assms
  by (auto simp add: store_def split: if_splits dest: emit_current_block emit_keeps)



lemma arith_assign_keeps:
  "arith_assign iop fop st ov rv rt = Inr (x, st') \<Longrightarrow> keeps st st'"
  unfolding arith_assign_def some_value_def
  by (auto elim!: then_doE split: if_splits dest!: binop_keeps simp add: keeps_def)

lemma assign_operation_keeps:
  "assign_operation st operator ov rv rt = Inr (x, st') \<Longrightarrow> keeps st st'"
  unfolding assign_operation_def some_value_def
  by (auto elim!: then_doE split: if_splits
      dest!: arith_assign_keeps binop_keeps builtin_pow_keeps handle_string_concatenation_keeps
      simp add: keeps_def)

text \<open>
  Claim C2 says that for \<open>a ** b\<close> both the emitted value and the type handle paired
  with it are \<open>f64\<close>, also for integer operands. For \<open>2 ** 10\<close> the code emits the call
  to \<open>pow\<close> on the promoted operands, a value of type \<open>f64\<close>, but returns it with the type
  handle \<open>i64\<close>: the handle is set from the operand handles before the operator is
  looked at. The two disagree, and a declaration \<open>var y: float = 2 ** 10\<close> allocates an
  \<open>i64\<close> slot from the handle and then fails to store the \<open>f64\<close> value into it.
\<close>

theorem visit_infix_expression_pow_int:
  "(case visit_infix_expression (program_entry Compiler)
           (IntegerLiteral (LInt 2)) (LStr ''**'') (IntegerLiteral (LInt 10)) of
      Inr ((Some v, t), st') \<Rightarrow> vtype v = DoubleType \<and> t = Some (IntType 64)
    | _ \<Rightarrow> False) \<and>
   visit_var_statement (program_entry Compiler) (IdentifierLiteral (LStr ''y''))
     (Some (InfixExpression (IntegerLiteral (LInt 2)) (LStr ''**'') (IntegerLiteral (LInt 10))))
     (LStr ''float'') = Inl (TypeError ''cannot store: mismatching types'')"
  by code_simp




text \<open>
  Claim C10. Whenever an assignment \<open>x = e\<close> or \<open>x op= e\<close> lowers without error, the last
  instruction of the current block stores a value into the slot \<open>x\<close> is bound to, and the
  type of that value is the slot's element type; in particular an \<open>f64\<close> value is never
  stored into an \<open>i64\<close> slot. (The visitor itself converts only towards \<open>f64\<close>; what
  rules out a mismatch is the check of the builder's \<open>store\<close>, which raises.)
\<close>

theorem visit_assign_statement_store_type:
  assumes "visit_assign_statement st ident operator value = Inr st'"
  shows "\<exists>name ptr t v is.
           node_value ident = Some name \<and> lookup (env st) name = Some (ptr, t) \<and>
           current_block st' = is @ [Store v ptr] \<and>
           vtype ptr = PointerType (vtype v) \<and>
           \<not> (vtype ptr = PointerType (IntType 64) \<and> vtype v = DoubleType)"
proof -
  from assms obtain name where n: "node_value ident = Some name"
    by (auto simp add: visit_assign_statement_def node_name_def elim!: then_doE
        split: option.splits)
  from assms n obtain rv rt st1 vp t1 ov0 st2 ov st3 rv1 st4 vo st5 ptr t v where
    r: "resolve_value st value = Inr ((rv, rt), st1)" and
    l1: "lookup_pair st1 name = Inr (vp, t1)" and
    ld: "load st1 vp = Inr (ov0, st2)" and
    c1: "(if is_IntType (vtype ov0) \<and> isinstance rt is_DoubleType
          then sitofp st2 ov0 f64 else Inr (ov0, st2)) = Inr (ov, st3)" and
    c2: "(if is_DoubleType (vtype ov) \<and> isinstance rt is_IntType
          then then_do (need rv) (\<lambda>rv. some_value (sitofp st3 rv f64))
          else Inr (rv, st3)) = Inr (rv1, st4)" and
    a: "assign_operation st4 operator ov rv1 rt = Inr (vo, st5)" and
    l2: "lookup_pair st5 name = Inr (ptr, t)" and
    v: "vo = Some v" and
    s: "store st5 v ptr = Inr st'"
    by (auto simp add: visit_assign_statement_def node_name_def need_def elim!: then_doE
        split: option.splits if_splits)
  have k1: "keeps st st1" using resolve_keeps(1)[OF r] .
  have k2: "keeps st1 st2" using load_keeps[OF ld] .
  have k3: "keeps st2 st3" using c1 by (auto split: if_splits dest: sitofp_keeps simp add: keeps_refl)
  have k4: "keeps st3 st4" using c2
    by (auto split: if_splits elim!: then_doE dest!: sitofp_keeps
        simp add: keeps_def some_value_def)
  have k5: "keeps st4 st5" using assign_operation_keeps[OF a] .
  have "env st5 = env st" using k1 k2 k3 k4 k5 by (simp add: keeps_def)
  with l2 have lk: "lookup (env st) name = Some (ptr, t)"
    by (auto simp add: lookup_pair_def split: option.splits)
  note S = store_Inr[OF s]
  show ?thesis using n lk S(1,2) by auto
qed

theorem visit_assign_statement_store_type_witness:
  "\<exists>st st' is v.
      outer_var_state = Inr st \<and> increment_statement st = Inr st' \<and>
      current_block st' = is @ [Store v (AllocaInstr 0 (IntType 64))] \<and>
      vtype v = IntType 64"
proof -
  have "case outer_var_state of
          Inr st \<Rightarrow>
            (case increment_statement st of
               Inr _ \<Rightarrow> lookup (env st) (LStr ''x'') = Some (AllocaInstr 0 (IntType 64), IntType 64)
             | Inl _ \<Rightarrow> False)
        | Inl _ \<Rightarrow> False"
    by code_simp
  then obtain st st' where
    a: "outer_var_state = Inr st" and
    b: "increment_statement st = Inr st'" and
    c: "lookup (env st) (LStr ''x'') = Some (AllocaInstr 0 (IntType 64), IntType 64)"
    by (auto split: sum.splits)
  from visit_assign_statement_store_type[OF b[unfolded increment_statement_def]] c
  have "\<exists>is v. current_block st' = is @ [Store v (AllocaInstr 0 (IntType 64))] \<and>
          vtype v = IntType 64"
    by auto
  with a b show ?thesis by blast
qed

end
